theory Spec2Isabelle
  imports Complex_Main "HOL-Library.Multiset"
begin

section \<open>Data model\<close>

text \<open>
  The two scripts of the repository read DICOM files with \<^verbatim>\<open>pydicom.dcmread\<close> and
  work on the attributes of the dataset that comes back.  An attribute that the file does
  not carry is absent (attribute access raises \<^verbatim>\<open>AttributeError\<close>), so every
  attribute is an option.  Python's \<^verbatim>\<open>float\<close> values are modelled as reals: the
  development is about which attributes enter which arithmetic operation and in which
  order, not about binary rounding.  \<^verbatim>\<open>ImagePositionPatient\<close> has three components
  and \<^verbatim>\<open>PixelSpacing\<close> two (their DICOM value multiplicities); \<^verbatim>\<open>[2]\<close> and
  \<^verbatim>\<open>[1]\<close> select the last one.
\<close>

datatype py_error =
    AttributeError string
  | ZeroDivisionError
  | ValueError string
  | InvalidDicomError
  | OSError string

record dataset =
  SeriesDescription :: "string option"
  SliceThickness :: "real option"
  SpacingBetweenSlices :: "real option"
  ImagePositionPatient :: "(real \<times> real \<times> real) option"
  XRayTubeCurrent :: "real option"
  RevolutionTime :: "real option"
  Rows :: "int option"
  PixelSpacing :: "(real \<times> real) option"

text \<open>A two-dimensional \<^verbatim>\<open>numpy\<close> array: its shape and its entries by index.\<close>

record ndarray =
  shape0 :: nat
  shape1 :: nat
  entry :: "nat \<Rightarrow> nat \<Rightarrow> int"

text \<open>What the plotting function hands to \<^verbatim>\<open>imshow\<close> and \<^verbatim>\<open>plot\<close>.\<close>

record figure =
  imshow_image :: ndarray
  imshow_extent :: "real \<times> real \<times> real \<times> real"
  plot_positions :: "real list"
  plot_intensities :: "real list"

section \<open>Strings\<close>

text \<open>\<^verbatim>\<open>str.lower\<close> on the ASCII letters; every other character is kept.\<close>

definition lower_char :: "char \<Rightarrow> char" where
  "lower_char c =
     (case map_of (zip ''ABCDEFGHIJKLMNOPQRSTUVWXYZ'' ''abcdefghijklmnopqrstuvwxyz'') c of
        None \<Rightarrow> c
      | Some d \<Rightarrow> d)"

definition lower :: "string \<Rightarrow> string" where
  "lower s = map lower_char s"

fun startswith :: "string \<Rightarrow> string \<Rightarrow> bool" where
  "startswith s [] = True"
| "startswith [] (p # ps) = False"
| "startswith (c # cs) (p # ps) = (c = p \<and> startswith cs ps)"

definition endswith :: "string \<Rightarrow> string \<Rightarrow> bool" where
  "endswith s suffix = startswith (rev s) (rev suffix)"

text \<open>\<^verbatim>\<open>sub in s\<close>: the substring test.\<close>

fun str_contains :: "string \<Rightarrow> string \<Rightarrow> bool" where
  "str_contains sub [] = (sub = [])"
| "str_contains sub (c # cs) = (startswith (c # cs) sub \<or> str_contains sub cs)"

section \<open>The scout view visualizer\<close>

text \<open>
  \<^verbatim>\<open>is_scout\<close>: the \<^verbatim>\<open>AttributeError\<close> of an absent series description is caught
  and answered with \<^verbatim>\<open>False\<close>.
\<close>

definition is_scout :: "dataset \<Rightarrow> bool" where
  "is_scout ds =
     (case SeriesDescription ds of
        None \<Rightarrow> False
      | Some sd \<Rightarrow>
          (let series_description = lower sd
           in str_contains ''scout face'' series_description
              \<or> str_contains ''profil'' series_description))"

text \<open>
  One pass of the loop body of \<^verbatim>\<open>extract_dicom_data\<close> for a dataset that is not a
  scout view.  The argument is \<^verbatim>\<open>current_position\<close> before the pass; the result is
  \<^verbatim>\<open>current_position\<close> after it and the pair appended to \<^verbatim>\<open>data\<close>.  The attributes
  are read in the order of the source, so the first absent one gives the error.
\<close>

definition slice_step :: "dataset \<Rightarrow> real option \<Rightarrow> py_error + (real \<times> (real \<times> real))" where
  "slice_step ds current_position =
     (case SliceThickness ds of
        None \<Rightarrow> Inl (AttributeError ''SliceThickness'')
      | Some slice_thickness \<Rightarrow>
          (let spacing_between_slices =
                 (case SpacingBetweenSlices ds of None \<Rightarrow> slice_thickness | Some s \<Rightarrow> s)
           in case (case current_position of
                      None \<Rightarrow>
                        (case ImagePositionPatient ds of
                           None \<Rightarrow> Inl (AttributeError ''ImagePositionPatient'')
                         | Some (x, y, z) \<Rightarrow> Inr z)
                    | Some p \<Rightarrow> Inr (p - slice_thickness)) of
                Inl e \<Rightarrow> Inl e
              | Inr position \<Rightarrow>
                  (case XRayTubeCurrent ds of
                     None \<Rightarrow> Inl (AttributeError ''XRayTubeCurrent'')
                   | Some tube_current \<Rightarrow>
                       (case RevolutionTime ds of
                          None \<Rightarrow> Inl (AttributeError ''RevolutionTime'')
                        | Some revolution_time \<Rightarrow>
                            Inr (position, (position, tube_current * revolution_time))))))"

text \<open>
  The loop of \<^verbatim>\<open>extract_dicom_data\<close> over the file paths, with the two local
  variables \<^verbatim>\<open>current_position\<close> and \<^verbatim>\<open>data\<close> passed along.  \<open>dcmread\<close> is the file
  system as \<^verbatim>\<open>pydicom.dcmread\<close> sees it: a path gives a dataset or the exception of
  the read.  No exception is caught in the loop.
\<close>

fun extract_loop ::
  "(string \<Rightarrow> py_error + dataset) \<Rightarrow> string list \<Rightarrow> real option \<Rightarrow> (real \<times> real) list
     \<Rightarrow> py_error + (real \<times> real) list" where
  "extract_loop dcmread [] current_position data = Inr data"
| "extract_loop dcmread (file # files) current_position data =
     (case dcmread file of
        Inl e \<Rightarrow> Inl e
      | Inr ds \<Rightarrow>
          if is_scout ds then extract_loop dcmread files current_position data
          else (case slice_step ds current_position of
                  Inl e \<Rightarrow> Inl e
                | Inr (position, pair) \<Rightarrow>
                    extract_loop dcmread files (Some position) (data @ [pair])))"

text \<open>The list \<^verbatim>\<open>data\<close> when the loop is left, before it is sorted.\<close>

definition accumulated_data ::
  "(string \<Rightarrow> py_error + dataset) \<Rightarrow> string list \<Rightarrow> py_error + (real \<times> real) list" where
  "accumulated_data dcmread dicom_files = extract_loop dcmread dicom_files None []"

text \<open>
  \<^verbatim>\<open>sorted(data, key=lambda x: x[0])[::-1]\<close>: Python's \<^verbatim>\<open>sorted\<close> is a stable
  ascending sort, as \<open>sort_key\<close> is; the slice \<^verbatim>\<open>[::-1]\<close> reverses.
\<close>

definition extract_dicom_data ::
  "(string \<Rightarrow> py_error + dataset) \<Rightarrow> string list \<Rightarrow> py_error + (real \<times> real) list" where
  "extract_dicom_data dcmread dicom_files =
     (case accumulated_data dcmread dicom_files of
        Inl e \<Rightarrow> Inl e
      | Inr data \<Rightarrow> Inr (rev (sort_key fst data)))"

text \<open>
  \<^verbatim>\<open>calculate_scout_positions\<close>.  \<^verbatim>\<open>Rows\<close> is an integer; dividing a float by the
  integer zero raises \<^verbatim>\<open>ZeroDivisionError\<close>.
\<close>

definition calculate_scout_positions :: "dataset \<Rightarrow> py_error + (real \<times> real \<times> real)" where
  "calculate_scout_positions scout_ds =
     (case SliceThickness scout_ds of
        None \<Rightarrow> Inl (AttributeError ''SliceThickness'')
      | Some scout_length \<Rightarrow>
          (case ImagePositionPatient scout_ds of
             None \<Rightarrow> Inl (AttributeError ''ImagePositionPatient'')
           | Some (x, y, z_start) \<Rightarrow>
               (let z_end = z_start - scout_length
                in case Rows scout_ds of
                     None \<Rightarrow> Inl (AttributeError ''Rows'')
                   | Some rows \<Rightarrow>
                       if rows = 0 then Inl ZeroDivisionError
                       else Inr (z_start, z_end, scout_length / real_of_int rows))))"

text \<open>\<^verbatim>\<open>np.rot90\<close>: a quarter turn counterclockwise.\<close>

definition rot90 :: "ndarray \<Rightarrow> ndarray" where
  "rot90 m = \<lparr>shape0 = shape1 m, shape1 = shape0 m,
              entry = (\<lambda>i j. entry m j (shape1 m - 1 - i))\<rparr>"

text \<open>
  \<^verbatim>\<open>plot_scoutview_with_modulation\<close>, up to the arguments of \<^verbatim>\<open>imshow\<close> and
  \<^verbatim>\<open>plot\<close>.  \<^verbatim>\<open>zip(*intensity_data)\<close> cannot be unpacked into two names when the
  list is empty.
\<close>

definition plot_scoutview_with_modulation ::
  "ndarray \<Rightarrow> dataset \<Rightarrow> (real \<times> real) list \<Rightarrow> py_error + figure" where
  "plot_scoutview_with_modulation scoutview scout_ds intensity_data =
     (case calculate_scout_positions scout_ds of
        Inl e \<Rightarrow> Inl e
      | Inr (z_start, z_end, z_spacing) \<Rightarrow>
          (let cols = shape1 scoutview
           in case PixelSpacing scout_ds of
                None \<Rightarrow> Inl (AttributeError ''PixelSpacing'')
              | Some (row_spacing, x_spacing) \<Rightarrow>
                  (let scoutview_rotated = rot90 scoutview;
                       extent = (z_start, z_end, 0, real cols * x_spacing)
                   in if intensity_data = []
                      then Inl (ValueError ''not enough values to unpack (expected 2, got 0)'')
                      else Inr \<lparr>imshow_image = scoutview_rotated, imshow_extent = extent,
                                plot_positions = map fst intensity_data,
                                plot_intensities = map snd intensity_data\<rparr>)))"

section \<open>The CT-Expo preprocessor\<close>

text \<open>
  The preprocessor reads header attributes by keyword with \<^verbatim>\<open>Dataset.get\<close>, so to
  it a dataset is a dictionary from keywords to values.
\<close>

datatype pyval = PyStr string | PyInt int | PyFloat real | PyNone

type_synonym header = "string \<rightharpoonup> pyval"

type_synonym dicom_info = "(string \<times> pyval) list"

datatype message =
    Could_not_read string py_error
  | Saved_to string
  | No_valid_files

record csv_file =
  csv_path :: string
  csv_header :: "string list"
  csv_rows :: "pyval list list"

record run =
  written :: "csv_file option"
  console :: "message list"

definition is_dicom_file :: "string \<Rightarrow> bool" where
  "is_dicom_file filename = endswith (lower filename) ''.dcm''"

definition header_get :: "header \<Rightarrow> string \<Rightarrow> pyval \<Rightarrow> pyval" where
  "header_get dicom_data keyword fallback =
     (case dicom_data keyword of None \<Rightarrow> fallback | Some v \<Rightarrow> v)"

definition dicom_info_of :: "header \<Rightarrow> dicom_info" where
  "dicom_info_of dicom_data =
     [(''PatientID'', header_get dicom_data ''PatientID'' (PyStr ''Unknown'')),
      (''StudyDate'', header_get dicom_data ''StudyDate'' (PyStr ''Unknown'')),
      (''Modality'', header_get dicom_data ''Modality'' (PyStr ''Unknown'')),
      (''KVP'', header_get dicom_data ''KVP'' (PyStr ''Unknown'')),
      (''XRayTubeCurrent'', header_get dicom_data ''XRayTubeCurrent'' (PyStr ''Unknown'')),
      (''ExposureTime'', header_get dicom_data ''ExposureTime'' (PyStr ''Unknown'')),
      (''SliceThickness'', header_get dicom_data ''SliceThickness'' (PyStr ''Unknown'')),
      (''Manufacturer'', header_get dicom_data ''Manufacturer'' (PyStr ''Unknown''))]"

text \<open>
  The inner loop over the files of one directory.  The state is \<^verbatim>\<open>dicom_info_list\<close>
  and what has been printed.  \<open>join\<close> is \<^verbatim>\<open>os.path.join\<close> of the platform and
  \<open>dcmread\<close> the file system as \<^verbatim>\<open>pydicom.dcmread\<close> sees it; every exception of the
  read is caught and printed.
\<close>

fun walk_files ::
  "(string \<Rightarrow> string \<Rightarrow> string) \<Rightarrow> (string \<Rightarrow> py_error + header) \<Rightarrow> string \<Rightarrow> string list
     \<Rightarrow> dicom_info list \<times> message list \<Rightarrow> dicom_info list \<times> message list" where
  "walk_files join dcmread root_dir [] state = state"
| "walk_files join dcmread root_dir (file # files) (dicom_info_list, printed) =
     (if \<not> is_dicom_file file
      then walk_files join dcmread root_dir files (dicom_info_list, printed)
      else (let file_path = join root_dir file
            in case dcmread file_path of
                 Inr dicom_data \<Rightarrow>
                   walk_files join dcmread root_dir files
                     (dicom_info_list @ [dicom_info_of dicom_data], printed)
               | Inl e \<Rightarrow>
                   walk_files join dcmread root_dir files
                     (dicom_info_list, printed @ [Could_not_read file_path e])))"

text \<open>The outer loop over the triples that \<^verbatim>\<open>os.walk\<close> yields.\<close>

fun walk_dirs ::
  "(string \<Rightarrow> string \<Rightarrow> string) \<Rightarrow> (string \<Rightarrow> py_error + header)
     \<Rightarrow> (string \<times> string list \<times> string list) list
     \<Rightarrow> dicom_info list \<times> message list \<Rightarrow> dicom_info list \<times> message list" where
  "walk_dirs join dcmread [] state = state"
| "walk_dirs join dcmread ((root_dir, dirs, files) # rest) state =
     walk_dirs join dcmread rest (walk_files join dcmread root_dir files state)"

text \<open>
  \<^verbatim>\<open>csv.DictWriter.writerow\<close>: the values of a dictionary in the order of the field
  names, the empty string for a field name the dictionary lacks.
\<close>

definition writerow :: "string list \<Rightarrow> dicom_info \<Rightarrow> pyval list" where
  "writerow fieldnames d =
     map (\<lambda>k. case map_of d k of None \<Rightarrow> PyStr [] | Some v \<Rightarrow> v) fieldnames"

text \<open>\<^verbatim>\<open>extract_dicom_info\<close>: the file it writes, if any, and what it prints.\<close>

definition extract_dicom_info ::
  "(string \<Rightarrow> (string \<times> string list \<times> string list) list) \<Rightarrow> (string \<Rightarrow> string \<Rightarrow> string)
     \<Rightarrow> (string \<Rightarrow> py_error + header) \<Rightarrow> string \<Rightarrow> string \<Rightarrow> run" where
  "extract_dicom_info os_walk join dcmread directory output_csv =
     (case walk_dirs join dcmread (os_walk directory) ([], []) of
        (dicom_info_list, printed) \<Rightarrow>
          (case dicom_info_list of
             first # others \<Rightarrow>
               (let fieldnames = map fst first
                in \<lparr>written = Some \<lparr>csv_path = output_csv, csv_header = fieldnames,
                                     csv_rows = map (writerow fieldnames) dicom_info_list\<rparr>,
                    console = printed @ [Saved_to output_csv]\<rparr>)
           | [] \<Rightarrow> \<lparr>written = None, console = printed @ [No_valid_files]\<rparr>))"

section \<open>Notions used in the statements\<close>

text \<open>
  The cumulative sequence \<open>Z0, Z0 - t\<^sub>1, Z0 - t\<^sub>1 - t\<^sub>2, \<dots>\<close> of a start position and
  a list of thicknesses, written from the specification's words.
\<close>

fun cumulative_positions :: "real \<Rightarrow> real list \<Rightarrow> real list" where
  "cumulative_positions Z0 [] = [Z0]"
| "cumulative_positions Z0 (t # ts) = Z0 # cumulative_positions (Z0 - t) ts"

text \<open>The loop of \<^verbatim>\<open>extract_dicom_data\<close> seen on the datasets that are not scout views.\<close>

fun slices_loop ::
  "dataset list \<Rightarrow> real option \<Rightarrow> (real \<times> real) list \<Rightarrow> py_error + (real \<times> real) list" where
  "slices_loop [] current_position data = Inr data"
| "slices_loop (ds # dss) current_position data =
     (case slice_step ds current_position of
        Inl e \<Rightarrow> Inl e
      | Inr (position, pair) \<Rightarrow> slices_loop dss (Some position) (data @ [pair]))"

text \<open>The paths that the preprocessor tries to read, in the order of the walk.\<close>

definition candidate_paths ::
  "(string \<Rightarrow> string \<Rightarrow> string) \<Rightarrow> (string \<times> string list \<times> string list) list \<Rightarrow> string list" where
  "candidate_paths join triples =
     concat (map (\<lambda>(root_dir, dirs, files). map (join root_dir) (filter is_dicom_file files)) triples)"

definition read_ok :: "(string \<Rightarrow> py_error + header) \<Rightarrow> string \<Rightarrow> bool" where
  "read_ok dcmread path = (case dcmread path of Inl e \<Rightarrow> False | Inr d \<Rightarrow> True)"

definition is_could_not_read :: "message \<Rightarrow> bool" where
  "is_could_not_read m = (case m of Could_not_read p e \<Rightarrow> True | _ \<Rightarrow> False)"

section \<open>Example studies\<close>

text \<open>
  Concrete inputs on which the theorems below are exercised: a slice with a position, a
  thickness, a tube current and a revolution time; a scout view; a folder of files with
  three regular slices, two slices of thickness zero and one slice without
  \<^verbatim>\<open>SliceThickness\<close>; a scout image; a directory tree for the preprocessor, joined the
  POSIX way.
\<close>

definition example_slice :: "real \<Rightarrow> real \<Rightarrow> real \<Rightarrow> real \<Rightarrow> dataset" where
  "example_slice z thickness tube_current revolution_time =
     \<lparr>SeriesDescription = Some ''Thorax 2.0 Axial'', SliceThickness = Some thickness,
      SpacingBetweenSlices = Some 5, ImagePositionPatient = Some (0, 0, z),
      XRayTubeCurrent = Some tube_current, RevolutionTime = Some revolution_time,
      Rows = Some 512, PixelSpacing = Some (1, 1)\<rparr>"

definition example_scout :: dataset where
  "example_scout =
     \<lparr>SeriesDescription = Some ''Scout Face'', SliceThickness = Some 400,
      SpacingBetweenSlices = None, ImagePositionPatient = Some (0, 0, 50),
      XRayTubeCurrent = Some 10, RevolutionTime = None,
      Rows = Some 200, PixelSpacing = Some (1, 1 / 2)\<rparr>"

definition example_study :: "string \<Rightarrow> py_error + dataset" where
  "example_study path =
     (if path = ''scout.dcm'' then Inr example_scout
      else if path = ''s1.dcm'' then Inr (example_slice 100 2 200 (1 / 2))
      else if path = ''s2.dcm'' then Inr (example_slice 98 2 200 (1 / 2))
      else if path = ''s3.dcm'' then Inr (example_slice 96 2 200 (1 / 2))
      else if path = ''flat1.dcm'' then Inr (example_slice 100 0 50 1)
      else if path = ''flat2.dcm'' then Inr (example_slice 100 0 60 1)
      else if path = ''bad.dcm''
        then Inr ((example_slice 94 2 200 (1 / 2))\<lparr>SliceThickness := None\<rparr>)
      else Inl (OSError path))"

definition example_image :: ndarray where
  "example_image = \<lparr>shape0 = 200, shape1 = 100, entry = (\<lambda>i j. 0)\<rparr>"

definition posix_join :: "string \<Rightarrow> string \<Rightarrow> string" where
  "posix_join a b =
     (if startswith b ''/'' then b
      else if a = [] \<or> endswith a ''/'' then a @ b
      else a @ ''/'' @ b)"

definition example_walk :: "string \<Rightarrow> (string \<times> string list \<times> string list) list" where
  "example_walk directory =
     (if directory = ''study''
      then [(''study'', [''sub''], [''a.dcm'', ''notes.txt'', ''broken.DCM'']),
            (''study/sub'', [], [''b.dcm''])]
      else [])"

definition example_headers :: "string \<Rightarrow> py_error + header" where
  "example_headers path =
     (if path = ''study/a.dcm''
        then Inr [''PatientID'' \<mapsto> PyStr ''P1'', ''KVP'' \<mapsto> PyFloat 120]
      else if path = ''study/sub/b.dcm''
        then Inr [''PatientID'' \<mapsto> PyStr ''P2'', ''Modality'' \<mapsto> PyStr ''CT'']
      else if path = ''study/broken.DCM'' then Inl InvalidDicomError
      else Inl (OSError path))"

section \<open>Properties of the string functions\<close>

text \<open>
  The three tests are the prefix, suffix and substring relations of Python's
  \<^verbatim>\<open>startswith\<close>, \<^verbatim>\<open>endswith\<close> and \<^verbatim>\<open>in\<close>.
\<close>

lemma startswith_iff: "startswith s p \<longleftrightarrow> (\<exists>post. s = p @ post)"
  by (induction s p rule: startswith.induct) auto

lemma endswith_iff: "endswith s suffix \<longleftrightarrow> (\<exists>pre. s = pre @ suffix)"
proof -
  have "endswith s suffix \<longleftrightarrow> (\<exists>post. rev s = rev suffix @ post)"
    by (simp add: endswith_def startswith_iff)
  also have "\<dots> \<longleftrightarrow> (\<exists>pre. s = pre @ suffix)"
  proof
    assume "\<exists>post. rev s = rev suffix @ post"
    then obtain post where "rev s = rev suffix @ post" by blast
    then have "rev (rev s) = rev (rev suffix @ post)" by simp
    then have "s = rev post @ suffix" by simp
    then show "\<exists>pre. s = pre @ suffix" by blast
  next
    assume "\<exists>pre. s = pre @ suffix"
    then obtain pre where "s = pre @ suffix" by blast
    then have "rev s = rev suffix @ rev pre" by simp
    then show "\<exists>post. rev s = rev suffix @ post" by blast
  qed
  finally show ?thesis .
qed

lemma str_contains_iff: "str_contains sub s \<longleftrightarrow> (\<exists>pre post. s = pre @ sub @ post)"
proof (induction s)
  case Nil
  then show ?case by auto
next
  case (Cons c cs)
  have "(\<exists>pre post. c # cs = pre @ sub @ post)
      \<longleftrightarrow> (\<exists>post. c # cs = sub @ post) \<or> (\<exists>pre post. cs = pre @ sub @ post)"
  proof
    assume "\<exists>pre post. c # cs = pre @ sub @ post"
    then obtain pre post where eq: "c # cs = pre @ sub @ post" by blast
    show "(\<exists>post. c # cs = sub @ post) \<or> (\<exists>pre post. cs = pre @ sub @ post)"
    proof (cases pre)
      case Nil
      with eq show ?thesis by auto
    next
      case (Cons a pre')
      with eq have "cs = pre' @ sub @ post" by simp
      then show ?thesis by blast
    qed
  next
    assume "(\<exists>post. c # cs = sub @ post) \<or> (\<exists>pre post. cs = pre @ sub @ post)"
    then show "\<exists>pre post. c # cs = pre @ sub @ post"
    proof
      assume "\<exists>post. c # cs = sub @ post"
      then obtain post where "c # cs = [] @ sub @ post" by auto
      then show ?thesis by blast
    next
      assume "\<exists>pre post. cs = pre @ sub @ post"
      then obtain pre post where "c # cs = (c # pre) @ sub @ post" by auto
      then show ?thesis by blast
    qed
  qed
  with Cons show ?case by (simp add: startswith_iff)
qed

section \<open>Properties of the loop of the profile builder\<close>

text \<open>
  When every file is read, the loop over the paths is the loop over the datasets that are
  not scout views.
\<close>

lemma extract_loop_slices:
  "map dcmread files = map Inr dss \<Longrightarrow>
   extract_loop dcmread files cur data = slices_loop (filter (\<lambda>ds. \<not> is_scout ds) dss) cur data"
proof (induction files arbitrary: dss cur data)
  case Nil
  then show ?case by simp
next
  case (Cons f files)
  then obtain ds rest where dss: "dss = ds # rest" and rd: "dcmread f = Inr ds"
    and tl: "map dcmread files = map Inr rest"
    by (cases dss) auto
  show ?case
    using Cons.IH [OF tl] by (simp add: dss rd split: sum.splits prod.splits)
qed

text \<open>
  What one pass returns, and which errors it can raise.
\<close>

lemma slice_step_Some:
  "slice_step ds (Some p) = Inr (position, pair) \<Longrightarrow>
   \<exists>t c r. SliceThickness ds = Some t \<and> XRayTubeCurrent ds = Some c \<and> RevolutionTime ds = Some r
     \<and> position = p - t \<and> pair = (p - t, c * r)"
  by (auto simp: slice_step_def Let_def split: option.splits)

lemma slice_step_None:
  "slice_step ds None = Inr (position, pair) \<Longrightarrow>
   \<exists>t x y z c r. SliceThickness ds = Some t \<and> ImagePositionPatient ds = Some (x, y, z)
     \<and> XRayTubeCurrent ds = Some c \<and> RevolutionTime ds = Some r
     \<and> position = z \<and> pair = (z, c * r)"
  by (auto simp: slice_step_def Let_def split: option.splits)

lemma slice_step_exposure:
  "slice_step ds cur = Inr (position, pair) \<Longrightarrow>
   \<exists>c r. XRayTubeCurrent ds = Some c \<and> RevolutionTime ds = Some r \<and> snd pair = c * r \<and> fst pair = position"
  by (cases cur) (auto dest: slice_step_Some slice_step_None)

lemma slice_step_error:
  "slice_step ds cur = Inl e \<Longrightarrow> \<exists>field. e = AttributeError field"
  by (auto simp: slice_step_def Let_def split: option.splits sum.splits)

lemma slice_step_no_thickness:
  "SliceThickness ds = None \<Longrightarrow> slice_step ds cur = Inl (AttributeError ''SliceThickness'')"
  by (simp add: slice_step_def)

lemma slice_step_spacing:
  "slice_step (ds\<lparr>SpacingBetweenSlices := v\<rparr>) cur = slice_step ds cur"
  by (simp add: slice_step_def Let_def split: option.splits)

lemma is_scout_spacing: "is_scout (ds\<lparr>SpacingBetweenSlices := v\<rparr>) = is_scout ds"
  by (simp add: is_scout_def)

lemma extract_loop_spacing:
  "extract_loop (\<lambda>f. map_sum id (\<lambda>ds. ds\<lparr>SpacingBetweenSlices := spacing f\<rparr>) (dcmread f))
     files cur data
   = extract_loop dcmread files cur data"
proof (induction files arbitrary: cur data)
  case Nil
  then show ?case by simp
next
  case (Cons f files)
  then show ?case
    by (cases "dcmread f")
      (simp_all add: slice_step_spacing is_scout_spacing split: sum.splits prod.splits)
qed

text \<open>
  The cumulative sequence by index.
\<close>

lemma cumulative_positions_Cons:
  "cumulative_positions z ts = z # tl (cumulative_positions z ts)"
  by (cases ts) simp_all

lemma length_cumulative_positions [simp]:
  "length (cumulative_positions z ts) = Suc (length ts)"
  by (induction ts arbitrary: z) simp_all

lemma cumulative_positions_nth:
  "k \<le> length ts \<Longrightarrow> cumulative_positions z ts ! k = z - sum_list (take k ts)"
proof (induction ts arbitrary: z k)
  case Nil
  then show ?case by simp
next
  case (Cons t ts)
  show ?case
  proof (cases k)
    case 0
    then show ?thesis by simp
  next
    case (Suc j)
    with Cons.prems have "j \<le> length ts" by simp
    from Cons.IH [OF this, of "z - t"] Suc show ?thesis by simp
  qed
qed

text \<open>
  Positions, exposures and length of the accumulated list; the fate of a run that meets a
  slice without thickness.
\<close>

lemma slices_loop_positions:
  "slices_loop rest (Some p) data = Inr out \<Longrightarrow>
   \<exists>ts. map SliceThickness rest = map Some ts
     \<and> map fst out = map fst data @ tl (cumulative_positions p ts)"
proof (induction rest arbitrary: p data)
  case Nil
  then show ?case by simp
next
  case (Cons ds rest)
  from Cons.prems obtain position pair where
    step: "slice_step ds (Some p) = Inr (position, pair)"
    and run: "slices_loop rest (Some position) (data @ [pair]) = Inr out"
    by (auto split: sum.splits)
  from slice_step_Some [OF step] obtain t where
    t: "SliceThickness ds = Some t" "position = p - t" "fst pair = p - t"
    by auto
  from Cons.IH [OF run] obtain ts where
    ts: "map SliceThickness rest = map Some ts"
      "map fst out = map fst (data @ [pair]) @ tl (cumulative_positions position ts)"
    by blast
  have "map SliceThickness (ds # rest) = map Some (t # ts)"
    using t ts by simp
  moreover have "map fst out = map fst data @ tl (cumulative_positions p (t # ts))"
    using ts(2) t cumulative_positions_Cons [of "p - t" ts] by simp
  ultimately show ?case by blast
qed

lemma slices_loop_first:
  assumes "slices_loop (first # rest) None [] = Inr out"
  shows "\<exists>x y Z0 ts. ImagePositionPatient first = Some (x, y, Z0)
     \<and> map SliceThickness rest = map Some ts
     \<and> map fst out = cumulative_positions Z0 ts"
proof -
  from assms obtain position pair where
    step: "slice_step first None = Inr (position, pair)"
    and run: "slices_loop rest (Some position) [pair] = Inr out"
    by (auto split: sum.splits)
  from slice_step_None [OF step] obtain x y z where
    z: "ImagePositionPatient first = Some (x, y, z)" "position = z" "fst pair = z"
    by auto
  from slices_loop_positions [OF run] obtain ts where
    ts: "map SliceThickness rest = map Some ts"
      "map fst out = map fst [pair] @ tl (cumulative_positions position ts)"
    by blast
  have "map fst out = cumulative_positions z ts"
    using ts(2) z cumulative_positions_Cons [of z ts] by simp
  with z ts(1) show ?thesis by blast
qed

lemma slices_loop_exposures:
  "slices_loop slices cur data = Inr out \<Longrightarrow>
   \<exists>new. out = data @ new \<and>
     list_all2 (\<lambda>ds p. \<exists>c r. XRayTubeCurrent ds = Some c \<and> RevolutionTime ds = Some r \<and> snd p = c * r)
       slices new"
proof (induction slices arbitrary: cur data)
  case Nil
  then show ?case by simp
next
  case (Cons ds rest)
  from Cons.prems obtain position pair where
    step: "slice_step ds cur = Inr (position, pair)"
    and run: "slices_loop rest (Some position) (data @ [pair]) = Inr out"
    by (auto split: sum.splits)
  from Cons.IH [OF run] obtain new where
    new: "out = (data @ [pair]) @ new"
      "list_all2 (\<lambda>ds p. \<exists>c r. XRayTubeCurrent ds = Some c \<and> RevolutionTime ds = Some r \<and> snd p = c * r) rest new"
    by blast
  from slice_step_exposure [OF step] new show ?case
    by (intro exI [of _ "pair # new"]) auto
qed

lemma slices_loop_length:
  "slices_loop slices cur data = Inr out \<Longrightarrow> length out = length data + length slices"
proof (induction slices arbitrary: cur data)
  case Nil
  then show ?case by simp
next
  case (Cons ds rest)
  from Cons.prems obtain position pair where
    "slices_loop rest (Some position) (data @ [pair]) = Inr out"
    by (auto split: sum.splits)
  from Cons.IH [OF this] show ?case by simp
qed

lemma slice_step_succeeds:
  assumes "SliceThickness ds \<noteq> None"
    and "XRayTubeCurrent ds \<noteq> None"
    and "RevolutionTime ds \<noteq> None"
    and "cur = None \<longrightarrow> ImagePositionPatient ds \<noteq> None"
  shows "\<exists>position pair. slice_step ds cur = Inr (position, pair)"
  using assms
  by (cases cur) (auto simp: slice_step_def Let_def split: option.splits)

lemma slices_loop_succeeds:
  assumes "\<forall>ds\<in>set slices. SliceThickness ds \<noteq> None \<and> XRayTubeCurrent ds \<noteq> None
             \<and> RevolutionTime ds \<noteq> None"
    and "cur = None \<longrightarrow> (\<forall>first rest. slices = first # rest \<longrightarrow> ImagePositionPatient first \<noteq> None)"
  shows "\<exists>out. slices_loop slices cur data = Inr out"
  using assms
proof (induction slices arbitrary: cur data)
  case Nil
  then show ?case by simp
next
  case (Cons ds rest)
  from Cons.prems have "\<exists>position pair. slice_step ds cur = Inr (position, pair)"
    by (intro slice_step_succeeds) auto
  then obtain position pair where step: "slice_step ds cur = Inr (position, pair)"
    by blast
  from Cons.prems(1) have rest: "\<forall>ds\<in>set rest. SliceThickness ds \<noteq> None
      \<and> XRayTubeCurrent ds \<noteq> None \<and> RevolutionTime ds \<noteq> None"
    by simp
  have "\<exists>out. slices_loop rest (Some position) (data @ [pair]) = Inr out"
    by (rule Cons.IH [OF rest]) simp
  with step show ?case by simp
qed

lemma slices_loop_missing_thickness:
  "ds \<in> set slices \<Longrightarrow> SliceThickness ds = None \<Longrightarrow>
   \<exists>field. slices_loop slices cur data = Inl (AttributeError field)"
proof (induction slices arbitrary: cur data)
  case Nil
  then show ?case by simp
next
  case (Cons s rest)
  show ?case
  proof (cases "slice_step s cur")
    case (Inl e)
    with slice_step_error [OF Inl] show ?thesis by auto
  next
    case (Inr r)
    then have "SliceThickness s \<noteq> None"
      by (cases "SliceThickness s") (simp_all add: slice_step_no_thickness)
    with Cons.prems have "ds \<in> set rest" by auto
    from Cons.IH [OF this Cons.prems(2)] Inr show ?thesis
      by (auto split: prod.splits)
  qed
qed

section \<open>Properties of the loops of the preprocessor\<close>

lemma walk_files_counts:
  "walk_files join dcmread root_dir files (infos, printed) = (infos', printed') \<Longrightarrow>
   length infos' = length infos
       + length (filter (read_ok dcmread) (map (join root_dir) (filter is_dicom_file files)))
   \<and> length (filter is_could_not_read printed') = length (filter is_could_not_read printed)
       + length (filter (\<lambda>p. \<not> read_ok dcmread p)
           (map (join root_dir) (filter is_dicom_file files)))"
proof (induction files arbitrary: infos printed)
  case Nil
  then show ?case by simp
next
  case (Cons f files)
  show ?case
  proof (cases "is_dicom_file f")
    case False
    with Cons.prems have "walk_files join dcmread root_dir files (infos, printed) = (infos', printed')"
      by simp
    from Cons.IH [OF this] False show ?thesis by simp
  next
    case True
    show ?thesis
    proof (cases "dcmread (join root_dir f)")
      case (Inr d)
      with True Cons.prems have
        "walk_files join dcmread root_dir files (infos @ [dicom_info_of d], printed) = (infos', printed')"
        by simp
      from Cons.IH [OF this] True Inr show ?thesis by (simp add: read_ok_def)
    next
      case (Inl e)
      with True Cons.prems have
        "walk_files join dcmread root_dir files
           (infos, printed @ [Could_not_read (join root_dir f) e]) = (infos', printed')"
        by simp
      from Cons.IH [OF this] True Inl show ?thesis
        by (simp add: read_ok_def is_could_not_read_def)
    qed
  qed
qed

lemma walk_dirs_counts:
  "walk_dirs join dcmread triples (infos, printed) = (infos', printed') \<Longrightarrow>
   length infos' = length infos
       + length (filter (read_ok dcmread) (candidate_paths join triples))
   \<and> length (filter is_could_not_read printed') = length (filter is_could_not_read printed)
       + length (filter (\<lambda>p. \<not> read_ok dcmread p) (candidate_paths join triples))"
proof (induction triples arbitrary: infos printed)
  case Nil
  then show ?case by (simp add: candidate_paths_def)
next
  case (Cons t triples)
  obtain root_dir dirs files where t: "t = (root_dir, dirs, files)"
    by (cases t) auto
  obtain infos1 printed1 where
    step: "walk_files join dcmread root_dir files (infos, printed) = (infos1, printed1)"
    by (cases "walk_files join dcmread root_dir files (infos, printed)") auto
  with Cons.prems t have "walk_dirs join dcmread triples (infos1, printed1) = (infos', printed')"
    by simp
  from Cons.IH [OF this] walk_files_counts [OF step] t show ?case
    by (simp add: candidate_paths_def)
qed

section \<open>The examples evaluated\<close>

lemma is_scout_example_scout: "is_scout example_scout"
  by (simp add: is_scout_def example_scout_def lower_def lower_char_def)

lemma is_scout_example_slice: "\<not> is_scout (example_slice z t c r)"
  by (simp add: is_scout_def example_slice_def lower_def lower_char_def)

lemma is_scout_example_slice_upd: "\<not> is_scout ((example_slice z t c r)\<lparr>SliceThickness := None\<rparr>)"
  by (simp add: is_scout_def example_slice_def lower_def lower_char_def)

lemma slice_step_example_None:
  "slice_step (example_slice z t c r) None = Inr (z, (z, c * r))"
  by (simp add: slice_step_def example_slice_def)

lemma slice_step_example_Some:
  "slice_step (example_slice z t c r) (Some p) = Inr (p - t, (p - t, c * r))"
  by (simp add: slice_step_def example_slice_def)

lemma example_slice_fields:
  "SliceThickness (example_slice z t c r) \<noteq> None"
  "XRayTubeCurrent (example_slice z t c r) \<noteq> None"
  "RevolutionTime (example_slice z t c r) \<noteq> None"
  "ImagePositionPatient (example_slice z t c r) \<noteq> None"
  by (simp_all add: example_slice_def)

lemma accumulated_example:
  "accumulated_data example_study [''scout.dcm'', ''s1.dcm'', ''s2.dcm'', ''s3.dcm'']
   = Inr [(100, 100), (98, 100), (96, 100)]"
  by (simp add: accumulated_data_def example_study_def is_scout_example_scout
      is_scout_example_slice slice_step_example_None slice_step_example_Some)

lemma accumulated_flat:
  "accumulated_data example_study [''flat1.dcm'', ''flat2.dcm''] = Inr [(100, 50), (100, 60)]"
  by (simp add: accumulated_data_def example_study_def
      is_scout_example_slice slice_step_example_None slice_step_example_Some)

lemma reads_example:
  "map example_study [''scout.dcm'', ''s1.dcm'', ''s2.dcm'', ''s3.dcm'']
     = map Inr [example_scout, example_slice 100 2 200 (1 / 2), example_slice 98 2 200 (1 / 2),
                example_slice 96 2 200 (1 / 2)]"
  by (simp add: example_study_def)

lemma extract_example:
  "extract_dicom_data example_study [''scout.dcm'', ''s1.dcm'', ''s2.dcm'', ''s3.dcm'']
   = Inr [(100, 100), (98, 100), (96, 100)]"
  by (simp add: extract_dicom_data_def accumulated_example)

lemma reads_bad:
  "map example_study [''s1.dcm'', ''s2.dcm'', ''bad.dcm'', ''s3.dcm'']
     = map Inr [example_slice 100 2 200 (1 / 2), example_slice 98 2 200 (1 / 2),
                (example_slice 94 2 200 (1 / 2))\<lparr>SliceThickness := None\<rparr>,
                example_slice 96 2 200 (1 / 2)]"
  by (simp add: example_study_def)

lemma calculate_example_scout:
  "calculate_scout_positions example_scout = Inr (50, - 350, 2)"
  by (simp add: calculate_scout_positions_def example_scout_def)

lemma plot_example:
  "plot_scoutview_with_modulation example_image example_scout [(100, 100), (98, 100)]
   = Inr \<lparr>imshow_image = rot90 example_image, imshow_extent = (50, - 350, 0, 50),
          plot_positions = [100, 98], plot_intensities = [100, 100]\<rparr>"
  by (simp add: plot_scoutview_with_modulation_def calculate_example_scout)
    (simp add: example_scout_def example_image_def)

lemma candidate_paths_example:
  "candidate_paths posix_join (example_walk ''study'')
   = [''study/a.dcm'', ''study/broken.DCM'', ''study/sub/b.dcm'']"
  by (simp add: candidate_paths_def example_walk_def posix_join_def is_dicom_file_def
      endswith_def lower_def lower_char_def)

lemma good_example:
  "filter (read_ok example_headers) [''study/a.dcm'', ''study/broken.DCM'', ''study/sub/b.dcm'']
   = [''study/a.dcm'', ''study/sub/b.dcm'']"
  by (simp add: read_ok_def example_headers_def)

lemma bad_example:
  "filter (\<lambda>p. \<not> read_ok example_headers p)
     [''study/a.dcm'', ''study/broken.DCM'', ''study/sub/b.dcm'']
   = [''study/broken.DCM'']"
  by (simp add: read_ok_def example_headers_def)

section \<open>The profile builder\<close>

text \<open>
  C1.  When every file is read and the run reaches the end of the loop, the positions
  recorded before sorting are the cumulative sequence: the first slice (the first dataset
  that is not a scout view) gives the third component \<open>Z0\<close> of its
  \<^verbatim>\<open>ImagePositionPatient\<close>, and every later slice the previous position minus its own
  \<^verbatim>\<open>SliceThickness\<close>, so that the \<open>k\<close>-th position is \<open>Z0\<close> minus the sum of the first
  \<open>k\<close> later thicknesses.  Replacing \<^verbatim>\<open>SpacingBetweenSlices\<close> in every file by any
  other value or by none leaves the recorded list as it is.
\<close>

theorem accumulated_positions_cumulative:
  assumes "map dcmread dicom_files = map Inr dss"
    and "filter (\<lambda>ds. \<not> is_scout ds) dss = first # rest"
    and "accumulated_data dcmread dicom_files = Inr data"
  shows "(\<exists>x y Z0 ts. ImagePositionPatient first = Some (x, y, Z0)
       \<and> map SliceThickness rest = map Some ts
       \<and> map fst data = cumulative_positions Z0 ts
       \<and> (\<forall>k\<le>length ts. fst (data ! k) = Z0 - sum_list (take k ts)))
     \<and> accumulated_data
         (\<lambda>f. map_sum id (\<lambda>ds. ds\<lparr>SpacingBetweenSlices := spacing f\<rparr>) (dcmread f))
         dicom_files = Inr data"
proof -
  have "slices_loop (first # rest) None [] = Inr data"
    using assms extract_loop_slices [OF assms(1), of None "[]"]
    by (simp add: accumulated_data_def)
  from slices_loop_first [OF this] obtain x y Z0 ts where
    f: "ImagePositionPatient first = Some (x, y, Z0)"
    and ts: "map SliceThickness rest = map Some ts"
    and pos: "map fst data = cumulative_positions Z0 ts"
    by blast
  have "fst (data ! k) = Z0 - sum_list (take k ts)" if "k \<le> length ts" for k
  proof -
    have "length data = Suc (length ts)"
      using pos length_cumulative_positions [of Z0 ts] length_map [of fst data] by simp
    with that have "fst (data ! k) = map fst data ! k" by simp
    with pos cumulative_positions_nth [OF that, of Z0] show ?thesis by simp
  qed
  with f ts pos have "\<exists>x y Z0 ts. ImagePositionPatient first = Some (x, y, Z0)
       \<and> map SliceThickness rest = map Some ts
       \<and> map fst data = cumulative_positions Z0 ts
       \<and> (\<forall>k\<le>length ts. fst (data ! k) = Z0 - sum_list (take k ts))"
    by blast
  moreover have "accumulated_data
         (\<lambda>f. map_sum id (\<lambda>ds. ds\<lparr>SpacingBetweenSlices := spacing f\<rparr>) (dcmread f))
         dicom_files = Inr data"
    using assms(3) by (simp add: accumulated_data_def extract_loop_spacing)
  ultimately show ?thesis by blast
qed

theorem accumulated_positions_cumulative_witness:
  "map example_study [''scout.dcm'', ''s1.dcm'', ''s2.dcm'', ''s3.dcm'']
     = map Inr [example_scout, example_slice 100 2 200 (1 / 2), example_slice 98 2 200 (1 / 2),
                example_slice 96 2 200 (1 / 2)]
   \<and> accumulated_data example_study [''scout.dcm'', ''s1.dcm'', ''s2.dcm'', ''s3.dcm'']
     = Inr [(100, 100), (98, 100), (96, 100)]
   \<and> (\<exists>x y Z0 ts. ImagePositionPatient (example_slice 100 2 200 (1 / 2)) = Some (x, y, Z0)
     \<and> map SliceThickness [example_slice 98 2 200 (1 / 2), example_slice 96 2 200 (1 / 2)]
         = map Some ts
     \<and> map fst [(100, 100), (98, 100), (96, 100 :: real)] = cumulative_positions Z0 ts
     \<and> (\<forall>k\<le>length ts. fst ([(100, 100), (98, 100), (96, 100 :: real)] ! k)
           = Z0 - sum_list (take k ts)))
   \<and> accumulated_data
        (\<lambda>f. map_sum id (\<lambda>ds. ds\<lparr>SpacingBetweenSlices := None\<rparr>) (example_study f))
        [''scout.dcm'', ''s1.dcm'', ''s2.dcm'', ''s3.dcm'']
     = Inr [(100, 100), (98, 100), (96, 100)]"
proof -
  have slices: "filter (\<lambda>ds. \<not> is_scout ds)
       [example_scout, example_slice 100 2 200 (1 / 2), example_slice 98 2 200 (1 / 2),
        example_slice 96 2 200 (1 / 2)]
     = example_slice 100 2 200 (1 / 2)
       # [example_slice 98 2 200 (1 / 2), example_slice 96 2 200 (1 / 2)]"
    by (simp add: is_scout_example_scout is_scout_example_slice)
  from accumulated_positions_cumulative
      [OF reads_example slices accumulated_example, where spacing = "\<lambda>f. None"]
    reads_example accumulated_example
  show ?thesis by blast
qed

text \<open>
  C2 (amended).  The returned list is the accumulated list sorted ascending by position
  with a stable sort and then reversed: it is descending by position, it has the same
  pairs, and among pairs with equal positions the input order is reversed, not
  preserved.
\<close>

theorem profile_sorted_descending:
  assumes "accumulated_data dcmread dicom_files = Inr data"
  shows "\<exists>profile. extract_dicom_data dcmread dicom_files = Inr profile
     \<and> profile = rev (sort_key fst data)
     \<and> sorted (rev (map fst profile))
     \<and> mset profile = mset data
     \<and> (\<forall>k. filter (\<lambda>p. fst p = k) profile = rev (filter (\<lambda>p. fst p = k) data))"
proof -
  let ?profile = "rev (sort_key fst data)"
  have "extract_dicom_data dcmread dicom_files = Inr ?profile"
    using assms by (simp add: extract_dicom_data_def)
  moreover have "sorted (rev (map fst ?profile))"
    by (simp add: rev_map)
  moreover have "mset ?profile = mset data"
    by simp
  moreover have "filter (\<lambda>p. fst p = k) ?profile = rev (filter (\<lambda>p. fst p = k) data)" for k
    by (simp only: rev_filter [symmetric] sort_key_stable)
  ultimately show ?thesis by blast
qed

theorem profile_sorted_descending_witness:
  "accumulated_data example_study [''flat1.dcm'', ''flat2.dcm''] = Inr [(100, 50), (100, 60)]
   \<and> (\<exists>profile. extract_dicom_data example_study [''flat1.dcm'', ''flat2.dcm''] = Inr profile
     \<and> profile = rev (sort_key fst [(100 :: real, 50 :: real), (100, 60)])
     \<and> sorted (rev (map fst profile))
     \<and> mset profile = mset [(100, 50), (100, 60)]
     \<and> (\<forall>k. filter (\<lambda>p. fst p = k) profile
            = rev (filter (\<lambda>p. fst p = k) [(100, 50), (100, 60)])))"
  using profile_sorted_descending [OF accumulated_flat] accumulated_flat
  by blast

text \<open>
  Two slices of thickness zero are recorded at the same position, with exposures 50 and
  60 in input order; the returned profile lists 60 before 50.
\<close>

theorem equal_positions_counterexample:
  "accumulated_data example_study [''flat1.dcm'', ''flat2.dcm''] = Inr [(100, 50), (100, 60)]
   \<and> extract_dicom_data example_study [''flat1.dcm'', ''flat2.dcm''] = Inr [(100, 60), (100, 50)]"
  by (simp add: extract_dicom_data_def accumulated_flat)

section \<open>The reference alignment calculator\<close>

text \<open>
  C3.  For a scout dataset with slice thickness \<open>L\<close>, third position component \<open>z\<close>
  and a number of rows \<open>r\<close> other than zero, \<^verbatim>\<open>calculate_scout_positions\<close> returns
  exactly the triple \<open>(z, z - L, L / r)\<close>; for \<open>L = 400\<close>, \<open>z = 50\<close>, \<open>r = 200\<close> that
  is \<open>(50, -350, 2)\<close>.
\<close>

theorem calculate_scout_positions_value:
  assumes "SliceThickness scout_ds = Some L"
    and "ImagePositionPatient scout_ds = Some (x, y, z)"
    and "Rows scout_ds = Some r"
    and "r \<noteq> 0"
  shows "calculate_scout_positions scout_ds = Inr (z, z - L, L / real_of_int r)"
  using assms by (simp add: calculate_scout_positions_def)

theorem calculate_scout_positions_value_witness:
  "calculate_scout_positions
     \<lparr>SeriesDescription = Some ''Scout Face'', SliceThickness = Some 400,
      SpacingBetweenSlices = None, ImagePositionPatient = Some (0, 0, 50),
      XRayTubeCurrent = None, RevolutionTime = None, Rows = Some 200,
      PixelSpacing = Some (1, 1)\<rparr>
   = Inr (50, - 350, 2)"
  using calculate_scout_positions_value
    [of "\<lparr>SeriesDescription = Some ''Scout Face'', SliceThickness = Some 400,
      SpacingBetweenSlices = None, ImagePositionPatient = Some (0, 0, 50),
      XRayTubeCurrent = None, RevolutionTime = None, Rows = Some 200,
      PixelSpacing = Some (1, 1)\<rparr>" 400 0 0 50 200]
  by simp

section \<open>Exposure\<close>

text \<open>
  C4.  When every file is read and a profile is returned, the exposure appended for each
  slice, in input order, is the product of its \<^verbatim>\<open>XRayTubeCurrent\<close> and its
  \<^verbatim>\<open>RevolutionTime\<close>, and the returned profile holds exactly the appended pairs.
\<close>

theorem exposure_is_product:
  assumes "map dcmread dicom_files = map Inr dss"
    and "extract_dicom_data dcmread dicom_files = Inr profile"
  shows "\<exists>data. accumulated_data dcmread dicom_files = Inr data
     \<and> list_all2 (\<lambda>ds p. \<exists>c r. XRayTubeCurrent ds = Some c \<and> RevolutionTime ds = Some r
                              \<and> snd p = c * r)
         (filter (\<lambda>ds. \<not> is_scout ds) dss) data
     \<and> mset profile = mset data"
proof -
  from assms(2) obtain data where
    acc: "accumulated_data dcmread dicom_files = Inr data"
    and prof: "profile = rev (sort_key fst data)"
    by (auto simp: extract_dicom_data_def split: sum.splits)
  have "slices_loop (filter (\<lambda>ds. \<not> is_scout ds) dss) None [] = Inr data"
    using acc extract_loop_slices [OF assms(1), of None "[]"]
    by (simp add: accumulated_data_def)
  from slices_loop_exposures [OF this]
  have "list_all2 (\<lambda>ds p. \<exists>c r. XRayTubeCurrent ds = Some c \<and> RevolutionTime ds = Some r
                              \<and> snd p = c * r)
         (filter (\<lambda>ds. \<not> is_scout ds) dss) data"
    by simp
  moreover have "mset profile = mset data"
    by (simp add: prof)
  ultimately show ?thesis using acc by blast
qed

theorem exposure_is_product_witness:
  "extract_dicom_data example_study [''scout.dcm'', ''s1.dcm'', ''s2.dcm'', ''s3.dcm'']
     = Inr [(100, 100), (98, 100), (96, 100)]
   \<and> (\<exists>data. accumulated_data example_study [''scout.dcm'', ''s1.dcm'', ''s2.dcm'', ''s3.dcm'']
         = Inr data
     \<and> list_all2 (\<lambda>ds p. \<exists>c r. XRayTubeCurrent ds = Some c \<and> RevolutionTime ds = Some r
                              \<and> snd p = c * r)
         (filter (\<lambda>ds. \<not> is_scout ds)
            [example_scout, example_slice 100 2 200 (1 / 2), example_slice 98 2 200 (1 / 2),
             example_slice 96 2 200 (1 / 2)]) data
     \<and> mset [(100 :: real, 100 :: real), (98, 100), (96, 100)] = mset data)"
  using exposure_is_product [OF reads_example extract_example] extract_example
  by blast

section \<open>Failures\<close>

text \<open>
  C5 (amended).  When \<^verbatim>\<open>Rows\<close> is absent or zero, \<^verbatim>\<open>calculate_scout_positions\<close>
  fails and returns no geometry.  With slice thickness and position present, the failure
  is the \<^verbatim>\<open>AttributeError\<close> of the missing attribute when \<^verbatim>\<open>Rows\<close> is absent, and
  a \<^verbatim>\<open>ZeroDivisionError\<close> when \<^verbatim>\<open>Rows\<close> is zero.
\<close>

theorem calculate_scout_positions_rows_failure:
  assumes "Rows scout_ds = None \<or> Rows scout_ds = Some 0"
  shows "(\<exists>e. calculate_scout_positions scout_ds = Inl e)
     \<and> (SliceThickness scout_ds \<noteq> None \<longrightarrow> ImagePositionPatient scout_ds \<noteq> None \<longrightarrow>
          calculate_scout_positions scout_ds
            = Inl (if Rows scout_ds = None then AttributeError ''Rows'' else ZeroDivisionError))"
  using assms
  by (auto simp: calculate_scout_positions_def Let_def split: option.splits)

theorem calculate_scout_positions_rows_failure_witness:
  "Rows (example_scout\<lparr>Rows := Some 0\<rparr>) = Some 0
   \<and> calculate_scout_positions (example_scout\<lparr>Rows := Some 0\<rparr>) = Inl ZeroDivisionError
   \<and> Rows (example_scout\<lparr>Rows := None\<rparr>) = None
   \<and> calculate_scout_positions (example_scout\<lparr>Rows := None\<rparr>) = Inl (AttributeError ''Rows'')"
  using calculate_scout_positions_rows_failure [of "example_scout\<lparr>Rows := Some 0\<rparr>"]
    calculate_scout_positions_rows_failure [of "example_scout\<lparr>Rows := None\<rparr>"]
  by (simp add: example_scout_def)

text \<open>
  A scout view with zero rows and every other attribute present: the error is that of
  the division, not that of a missing attribute.
\<close>

theorem zero_rows_counterexample:
  "calculate_scout_positions (example_scout\<lparr>Rows := Some 0\<rparr>) = Inl ZeroDivisionError"
  by (simp add: calculate_scout_positions_def example_scout_def)

text \<open>
  C6.  When every file is read and some dataset that is not a scout view has no
  \<^verbatim>\<open>SliceThickness\<close>, the whole run fails with the \<^verbatim>\<open>AttributeError\<close> of a missing
  attribute; no profile, partial or other, is returned.
\<close>

theorem missing_thickness_is_fatal:
  assumes "map dcmread dicom_files = map Inr dss"
    and "ds \<in> set dss"
    and "\<not> is_scout ds"
    and "SliceThickness ds = None"
  shows "\<exists>field. extract_dicom_data dcmread dicom_files = Inl (AttributeError field)"
proof -
  from assms(2,3) have "ds \<in> set (filter (\<lambda>ds. \<not> is_scout ds) dss)" by simp
  from slices_loop_missing_thickness [OF this assms(4), of None "[]"]
  obtain field where
    "slices_loop (filter (\<lambda>ds. \<not> is_scout ds) dss) None [] = Inl (AttributeError field)"
    by blast
  then have "extract_dicom_data dcmread dicom_files = Inl (AttributeError field)"
    using extract_loop_slices [OF assms(1), of None "[]"]
    by (simp add: extract_dicom_data_def accumulated_data_def)
  then show ?thesis by blast
qed

theorem missing_thickness_is_fatal_witness:
  "map example_study [''s1.dcm'', ''s2.dcm'', ''bad.dcm'', ''s3.dcm'']
     = map Inr [example_slice 100 2 200 (1 / 2), example_slice 98 2 200 (1 / 2),
                (example_slice 94 2 200 (1 / 2))\<lparr>SliceThickness := None\<rparr>,
                example_slice 96 2 200 (1 / 2)]
   \<and> \<not> is_scout ((example_slice 94 2 200 (1 / 2))\<lparr>SliceThickness := None\<rparr>)
   \<and> SliceThickness ((example_slice 94 2 200 (1 / 2))\<lparr>SliceThickness := None\<rparr>) = None
   \<and> (\<exists>field. extract_dicom_data example_study [''s1.dcm'', ''s2.dcm'', ''bad.dcm'', ''s3.dcm'']
         = Inl (AttributeError field))"
proof -
  have thick: "SliceThickness ((example_slice 94 2 200 (1 / 2))\<lparr>SliceThickness := None\<rparr>) = None"
    by simp
  have mem: "(example_slice 94 2 200 (1 / 2))\<lparr>SliceThickness := None\<rparr>
      \<in> set [example_slice 100 2 200 (1 / 2), example_slice 98 2 200 (1 / 2),
                (example_slice 94 2 200 (1 / 2))\<lparr>SliceThickness := None\<rparr>,
                example_slice 96 2 200 (1 / 2)]"
    by simp
  from missing_thickness_is_fatal [OF reads_bad mem is_scout_example_slice_upd thick]
    reads_bad is_scout_example_slice_upd thick
  show ?thesis by blast
qed

section \<open>The batch collector\<close>

text \<open>
  C7.  \<^verbatim>\<open>extract_dicom_info\<close> always comes to its end: a failed read is printed and
  the walk goes on.  Over the paths with the \<^verbatim>\<open>.dcm\<close> extension that the walk meets, a
  file is written if and only if at least one read succeeded; the file then is the
  requested one and has one data row for each read that succeeded; when no read
  succeeded nothing is written and the last thing printed is that no valid file was
  found; one failure message is printed for each read that failed.
\<close>

theorem batch_collector_output:
  "(let paths = candidate_paths join (os_walk directory);
        good = filter (read_ok dcmread) paths;
        r = extract_dicom_info os_walk join dcmread directory output_csv
    in (written r \<noteq> None \<longleftrightarrow> good \<noteq> [])
     \<and> (\<forall>f. written r = Some f \<longrightarrow>
            csv_path f = output_csv \<and> length (csv_rows f) = length good)
     \<and> (good = [] \<longrightarrow> written r = None \<and> last (console r) = No_valid_files)
     \<and> length (filter is_could_not_read (console r))
         = length (filter (\<lambda>p. \<not> read_ok dcmread p) paths))"
proof -
  obtain infos printed where
    run: "walk_dirs join dcmread (os_walk directory) ([], []) = (infos, printed)"
    by (cases "walk_dirs join dcmread (os_walk directory) ([], [])") auto
  from walk_dirs_counts [OF run] have
    len: "length infos
        = length (filter (read_ok dcmread) (candidate_paths join (os_walk directory)))"
    and skipped: "length (filter is_could_not_read printed)
        = length (filter (\<lambda>p. \<not> read_ok dcmread p) (candidate_paths join (os_walk directory)))"
    by simp_all
  show ?thesis
  proof (cases infos)
    case Nil
    with run len skipped show ?thesis
      by (simp add: extract_dicom_info_def Let_def is_could_not_read_def)
  next
    case (Cons first others)
    with run len skipped show ?thesis
      by (auto simp: extract_dicom_info_def Let_def is_could_not_read_def)
  qed
qed

theorem batch_collector_output_witness:
  "candidate_paths posix_join (example_walk ''study'')
     = [''study/a.dcm'', ''study/broken.DCM'', ''study/sub/b.dcm'']
   \<and> filter (read_ok example_headers) (candidate_paths posix_join (example_walk ''study''))
     = [''study/a.dcm'', ''study/sub/b.dcm'']
   \<and> (\<exists>f. written (extract_dicom_info example_walk posix_join example_headers ''study''
              ''out.csv'') = Some f
        \<and> csv_path f = ''out.csv'' \<and> length (csv_rows f) = 2)
   \<and> length (filter is_could_not_read
        (console (extract_dicom_info example_walk posix_join example_headers ''study''
           ''out.csv''))) = 1"
proof -
  note t = batch_collector_output
    [of posix_join example_walk "''study''" example_headers "''out.csv''",
      unfolded Let_def candidate_paths_example good_example bad_example]
  from t have "written (extract_dicom_info example_walk posix_join example_headers ''study''
      ''out.csv'') \<noteq> None"
    by simp
  then obtain f where f: "written (extract_dicom_info example_walk posix_join example_headers
      ''study'' ''out.csv'') = Some f"
    by blast
  with t have "csv_path f = ''out.csv'' \<and> length (csv_rows f) = 2"
    by simp
  with f t show ?thesis
    unfolding candidate_paths_example good_example by simp
qed

section \<open>Classification\<close>

text \<open>
  C8.  \<^verbatim>\<open>is_scout\<close> depends on the series description only, and on it only up to
  letter case: two datasets whose descriptions are both absent or equal after lowering
  are classified alike.  A dataset without series description is not a scout view.  The
  function is total: it raises nothing.
\<close>

theorem is_scout_depends_on_description:
  "(map_option lower (SeriesDescription a) = map_option lower (SeriesDescription b) \<longrightarrow>
      is_scout a = is_scout b)
   \<and> (SeriesDescription a = None \<longrightarrow> \<not> is_scout a)"
  by (cases "SeriesDescription a"; cases "SeriesDescription b") (simp_all add: is_scout_def)

theorem is_scout_depends_on_description_witness:
  "map_option lower (SeriesDescription example_scout)
     = map_option lower (SeriesDescription (example_slice 0 1 1 1\<lparr>SeriesDescription := Some ''SCOUT FACE''\<rparr>))
   \<and> is_scout example_scout
   \<and> is_scout (example_slice 0 1 1 1\<lparr>SeriesDescription := Some ''SCOUT FACE''\<rparr>)
   \<and> SeriesDescription (example_scout\<lparr>SeriesDescription := None\<rparr>) = None
   \<and> \<not> is_scout (example_scout\<lparr>SeriesDescription := None\<rparr>)"
proof -
  have eq: "map_option lower (SeriesDescription example_scout)
     = map_option lower (SeriesDescription (example_slice 0 1 1 1\<lparr>SeriesDescription := Some ''SCOUT FACE''\<rparr>))"
    by (simp add: example_scout_def lower_def lower_char_def)
  have none: "SeriesDescription (example_scout\<lparr>SeriesDescription := None\<rparr>) = None"
    by simp
  from is_scout_depends_on_description
      [of example_scout "example_slice 0 1 1 1\<lparr>SeriesDescription := Some ''SCOUT FACE''\<rparr>"]
    is_scout_depends_on_description
      [of "example_scout\<lparr>SeriesDescription := None\<rparr>" example_scout]
    eq none is_scout_example_scout
  show ?thesis by blast
qed

section \<open>The overlay\<close>

text \<open>
  C9 (amended).  When the plot is drawn, the image shown is the scout image turned by a
  quarter, on the horizontal extent from \<open>z_start\<close> to \<open>z_end\<close> of
  \<^verbatim>\<open>calculate_scout_positions\<close> and on the vertical extent from zero to the number of
  columns of the scout image times the second component of \<^verbatim>\<open>PixelSpacing\<close>; the
  corrected row spacing is computed and not used.
\<close>

theorem plot_extent:
  assumes "plot_scoutview_with_modulation scoutview scout_ds intensity_data = Inr fig"
  shows "\<exists>z_start z_end z_spacing row_spacing x_spacing.
       calculate_scout_positions scout_ds = Inr (z_start, z_end, z_spacing)
     \<and> PixelSpacing scout_ds = Some (row_spacing, x_spacing)
     \<and> imshow_image fig = rot90 scoutview
     \<and> imshow_extent fig = (z_start, z_end, 0, real (shape1 scoutview) * x_spacing)
     \<and> plot_positions fig = map fst intensity_data"
  using assms
  by (auto simp: plot_scoutview_with_modulation_def Let_def
      split: sum.splits option.splits prod.splits if_splits)

theorem plot_extent_witness:
  "plot_scoutview_with_modulation example_image example_scout [(100, 100), (98, 100)]
   = Inr \<lparr>imshow_image = rot90 example_image, imshow_extent = (50, - 350, 0, 50),
          plot_positions = [100, 98], plot_intensities = [100, 100]\<rparr>
   \<and> (\<exists>z_start z_end z_spacing row_spacing x_spacing.
       calculate_scout_positions example_scout = Inr (z_start, z_end, z_spacing)
     \<and> PixelSpacing example_scout = Some (row_spacing, x_spacing)
     \<and> (50, - 350, 0, 50) = (z_start, z_end, 0, real (shape1 example_image) * x_spacing))"
  using plot_extent [OF plot_example] plot_example
  by simp

text \<open>
  A scout view of 200 rows and length 400 (row spacing 2, so rows times row spacing is
  400) with an image of 100 columns and a column spacing of one half: the vertical extent
  ends at 50.
\<close>

theorem vertical_extent_counterexample:
  "map_sum id imshow_extent
     (plot_scoutview_with_modulation example_image example_scout [(100, 100), (98, 100)])
   = Inr (50, - 350, 0, 50)
   \<and> calculate_scout_positions example_scout = Inr (50, - 350, 2)
   \<and> Rows example_scout = Some 200"
  by (simp add: plot_example calculate_example_scout) (simp add: example_scout_def)

section \<open>Length of the profile\<close>

text \<open>
  C10.  On the empty list of files, and on a list of files that are all read and all
  scout views, \<^verbatim>\<open>extract_dicom_data\<close> returns the empty profile.  Whenever every file is
  read and a profile is returned, its length is the number of datasets that are not scout
  views.  A profile is returned, and has that length, whenever every file is read, every
  dataset that is not a scout view carries \<^verbatim>\<open>SliceThickness\<close>, \<^verbatim>\<open>XRayTubeCurrent\<close> and
  \<^verbatim>\<open>RevolutionTime\<close>, and the first of them carries \<^verbatim>\<open>ImagePositionPatient\<close>.
\<close>

theorem profile_length:
  "extract_dicom_data dcmread [] = Inr []
   \<and> (map dcmread dicom_files = map Inr dss \<longrightarrow> (\<forall>ds\<in>set dss. is_scout ds) \<longrightarrow>
        extract_dicom_data dcmread dicom_files = Inr [])
   \<and> (map dcmread dicom_files = map Inr dss \<longrightarrow>
        extract_dicom_data dcmread dicom_files = Inr profile \<longrightarrow>
        length profile = length (filter (\<lambda>ds. \<not> is_scout ds) dss))
   \<and> (map dcmread dicom_files = map Inr dss \<longrightarrow>
        (\<forall>ds\<in>set dss. \<not> is_scout ds \<longrightarrow>
           SliceThickness ds \<noteq> None \<and> XRayTubeCurrent ds \<noteq> None
           \<and> RevolutionTime ds \<noteq> None) \<longrightarrow>
        (\<forall>first rest. filter (\<lambda>ds. \<not> is_scout ds) dss = first # rest \<longrightarrow>
           ImagePositionPatient first \<noteq> None) \<longrightarrow>
        (\<exists>returned. extract_dicom_data dcmread dicom_files = Inr returned
           \<and> length returned = length (filter (\<lambda>ds. \<not> is_scout ds) dss)))"
proof (intro conjI impI)
  show "extract_dicom_data dcmread [] = Inr []"
    by (simp add: extract_dicom_data_def accumulated_data_def)
next
  assume reads: "map dcmread dicom_files = map Inr dss" and all: "\<forall>ds\<in>set dss. is_scout ds"
  from all have "filter (\<lambda>ds. \<not> is_scout ds) dss = []" by simp
  with extract_loop_slices [OF reads, of None "[]"]
  show "extract_dicom_data dcmread dicom_files = Inr []"
    by (simp add: extract_dicom_data_def accumulated_data_def)
next
  assume reads: "map dcmread dicom_files = map Inr dss"
    and run: "extract_dicom_data dcmread dicom_files = Inr profile"
  from run obtain data where
    acc: "accumulated_data dcmread dicom_files = Inr data"
    and prof: "profile = rev (sort_key fst data)"
    by (auto simp: extract_dicom_data_def split: sum.splits)
  have "slices_loop (filter (\<lambda>ds. \<not> is_scout ds) dss) None [] = Inr data"
    using acc extract_loop_slices [OF reads, of None "[]"]
    by (simp add: accumulated_data_def)
  from slices_loop_length [OF this] prof
  show "length profile = length (filter (\<lambda>ds. \<not> is_scout ds) dss)"
    by simp
next
  assume reads: "map dcmread dicom_files = map Inr dss"
    and fields: "\<forall>ds\<in>set dss. \<not> is_scout ds \<longrightarrow>
           SliceThickness ds \<noteq> None \<and> XRayTubeCurrent ds \<noteq> None
           \<and> RevolutionTime ds \<noteq> None"
    and start: "\<forall>first rest. filter (\<lambda>ds. \<not> is_scout ds) dss = first # rest \<longrightarrow>
           ImagePositionPatient first \<noteq> None"
  let ?slices = "filter (\<lambda>ds. \<not> is_scout ds) dss"
  from fields have "\<forall>ds\<in>set ?slices. SliceThickness ds \<noteq> None
      \<and> XRayTubeCurrent ds \<noteq> None \<and> RevolutionTime ds \<noteq> None"
    by simp
  from slices_loop_succeeds [OF this, of None "[]"] start
  obtain data where data: "slices_loop ?slices None [] = Inr data"
    by blast
  then have "extract_dicom_data dcmread dicom_files = Inr (rev (sort_key fst data))"
    using extract_loop_slices [OF reads, of None "[]"]
    by (simp add: extract_dicom_data_def accumulated_data_def)
  moreover have "length (rev (sort_key fst data)) = length ?slices"
    using slices_loop_length [OF data] by simp
  ultimately show "\<exists>returned. extract_dicom_data dcmread dicom_files = Inr returned
           \<and> length returned = length ?slices"
    by blast
qed

theorem profile_length_witness:
  "extract_dicom_data example_study [] = Inr []
   \<and> extract_dicom_data example_study [''scout.dcm''] = Inr []
   \<and> extract_dicom_data example_study [''scout.dcm'', ''s1.dcm'', ''s2.dcm'', ''s3.dcm'']
       = Inr [(100, 100), (98, 100), (96, 100)]
   \<and> length (filter (\<lambda>ds. \<not> is_scout ds)
         [example_scout, example_slice 100 2 200 (1 / 2), example_slice 98 2 200 (1 / 2),
          example_slice 96 2 200 (1 / 2)]) = 3
   \<and> (\<exists>returned.
         extract_dicom_data example_study [''scout.dcm'', ''s1.dcm'', ''s2.dcm'', ''s3.dcm'']
           = Inr returned
         \<and> length returned = 3)"
proof -
  let ?dss = "[example_scout, example_slice 100 2 200 (1 / 2), example_slice 98 2 200 (1 / 2),
      example_slice 96 2 200 (1 / 2)]"
  let ?files = "[''scout.dcm'', ''s1.dcm'', ''s2.dcm'', ''s3.dcm'']"
  have r1: "map example_study [''scout.dcm''] = map Inr [example_scout]"
    by (simp add: example_study_def)
  have a1: "\<forall>ds\<in>set [example_scout]. is_scout ds"
    by (simp add: is_scout_example_scout)
  have slices: "filter (\<lambda>ds. \<not> is_scout ds) ?dss
      = [example_slice 100 2 200 (1 / 2), example_slice 98 2 200 (1 / 2),
         example_slice 96 2 200 (1 / 2)]"
    by (simp add: is_scout_example_scout is_scout_example_slice)
  have fields: "\<forall>ds\<in>set ?dss. \<not> is_scout ds \<longrightarrow>
           SliceThickness ds \<noteq> None \<and> XRayTubeCurrent ds \<noteq> None
           \<and> RevolutionTime ds \<noteq> None"
  proof (intro ballI impI)
    fix ds
    assume "ds \<in> set ?dss" and "\<not> is_scout ds"
    then have "ds = example_slice 100 2 200 (1 / 2) \<or> ds = example_slice 98 2 200 (1 / 2)
        \<or> ds = example_slice 96 2 200 (1 / 2)"
      by (auto simp: is_scout_example_scout)
    then show "SliceThickness ds \<noteq> None \<and> XRayTubeCurrent ds \<noteq> None
        \<and> RevolutionTime ds \<noteq> None"
      by (elim disjE) (simp_all only: example_slice_fields simp_thms)
  qed
  have start: "\<forall>first rest. filter (\<lambda>ds. \<not> is_scout ds) ?dss = first # rest \<longrightarrow>
           ImagePositionPatient first \<noteq> None"
    unfolding slices using example_slice_fields(4) [of 100 2 200 "1 / 2"] by blast
  from profile_length [of example_study "[''scout.dcm'']" "[example_scout]"] r1 a1
  have empty: "extract_dicom_data example_study [] = Inr []"
    and scouts: "extract_dicom_data example_study [''scout.dcm''] = Inr []"
    by blast+
  from profile_length [of example_study ?files ?dss "[(100, 100), (98, 100), (96, 100)]"]
    reads_example fields start
  have "\<exists>returned. extract_dicom_data example_study ?files = Inr returned
      \<and> length returned = length (filter (\<lambda>ds. \<not> is_scout ds) ?dss)"
    by blast
  moreover have len: "length (filter (\<lambda>ds. \<not> is_scout ds) ?dss) = 3"
    unfolding slices by simp
  ultimately have "\<exists>returned. extract_dicom_data example_study ?files = Inr returned
      \<and> length returned = 3"
    by simp
  with empty scouts extract_example len show ?thesis
    by blast
qed

end
